theory Spec2Isabelle
  imports Main "HOL-Library.Multiset"
begin

section \<open>Data model\<close>

text \<open>
  The service \<^verbatim>\<open>storageService\<close> of \<^verbatim>\<open>src/services/storage.ts\<close> keeps two JSON arrays in
  \<^verbatim>\<open>localStorage\<close>, one of equipment and one of notifications. The declarations of
  \<^verbatim>\<open>types.ts\<close> are read off the way the service and \<^verbatim>\<open>App\<close> use them.

  An instant is a number of milliseconds since the epoch. The service writes instants with
  \<^verbatim>\<open>new Date().toISOString()\<close> and reads them back with \<^verbatim>\<open>new Date(text).getTime()\<close>; the model
  keeps the instant itself in place of its ISO text. Dates that the service only carries
  along (purchase date, the date of a log) stay strings.
\<close>

type_synonym instant = int

datatype EquipmentStatus = Available | In_use | Maintenance

datatype UserRole = Admin | User

record MaintenanceLog =
  log_id :: string
  log_date :: string
  description :: string
  reportedBy :: string
  reportedById :: string
  resolvedAt :: "instant option"

record Equipment =
  eq_id :: string
  name :: string
  brand :: string
  category :: string
  status :: EquipmentStatus
  purchaseDate :: string
  logs :: "MaintenanceLog list"

record AppNotification =
  n_id :: string
  n_date :: instant
  read :: bool
  message :: string
  n_type :: string
  recipientRole :: "UserRole option"
  recipientUserId :: "string option"
  relatedEquipmentId :: "string option"

text \<open>The argument of \<^verbatim>\<open>createNotification\<close>: a notification without id, date and read flag.\<close>

record NotificationData =
  d_message :: string
  d_type :: string
  d_recipientRole :: "UserRole option"
  d_recipientUserId :: "string option"
  d_relatedEquipmentId :: "string option"

text \<open>
  The state the service works on. \<open>equipment_store\<close> and \<open>notifications_store\<close> are the two
  keys of \<^verbatim>\<open>localStorage\<close>, \<open>None\<close> while a key holds nothing; a stored JSON text is kept as the
  array it parses to (\<^verbatim>\<open>JSON.parse\<close> of \<^verbatim>\<open>JSON.stringify\<close> gives a fresh copy of these plain
  records). \<open>initial_data_mem\<close> is the module's array \<^verbatim>\<open>INITIAL_DATA\<close> as it stands in memory:
  \<^verbatim>\<open>getAll\<close> hands out that very array while nothing is stored, so an assignment to one of its
  elements is seen in it.
\<close>

record storage =
  equipment_store :: "Equipment list option"
  notifications_store :: "AppNotification list option"
  initial_data_mem :: "Equipment list"

section \<open>Seed data\<close>

text \<open>Text outside ASCII is written as its UTF-8 bytes.\<close>

definition INITIAL_DATA :: "Equipment list" where
  "INITIAL_DATA =
    [ \<lparr>eq_id = ''1'', name = ''Shure SM58'', brand = ''Shure'', category = ''Microfones'',
        status = Available, purchaseDate = ''2023-01-15'', logs = []\<rparr>,
      \<lparr>eq_id = ''2'', name = ''Behringer X32'', brand = ''Behringer'', category = ''Mesas de Som'',
        status = In_use, purchaseDate = ''2022-05-20'', logs = []\<rparr>,
      \<lparr>eq_id = ''3'', name = ''Cabo XLR 10m'', brand = ''Santo Angelo'', category = ''Cabos'',
        status = Maintenance, purchaseDate = ''2023-08-10'',
        logs = [\<lparr>log_id = ''log-1'', log_date = ''2023-10-25'',
                  description = ''Conector com mau contato'',
                  reportedBy = ''Usu'' @ [CHR 0xC3, CHR 0xA1] @ ''rio Padr'' @ [CHR 0xC3, CHR 0xA3] @ ''o'',
                  reportedById = ''user-1'', resolvedAt = None\<rparr>]\<rparr>,
      \<lparr>eq_id = ''4'', name = ''Yamaha DBR10'', brand = ''Yamaha'', category = ''Caixas de Som'',
        status = Available, purchaseDate = ''2021-11-05'', logs = []\<rparr> ]"

text \<open>The state of a page that has just loaded the module in a browser with nothing stored.\<close>

definition fresh :: storage where
  "fresh = \<lparr>equipment_store = None, notifications_store = None, initial_data_mem = INITIAL_DATA\<rparr>"

section \<open>Equipment methods\<close>

text \<open>
  Every method is \<^verbatim>\<open>async\<close> and awaits a timer before it reads the store; the timers change
  no data, and each method is modelled as running from its first read to its last write
  with no other method in between.
\<close>

definition getAll :: "storage \<Rightarrow> Equipment list \<times> storage" where
  "getAll s =
    (case equipment_store s of
       None \<Rightarrow> (initial_data_mem s, s\<lparr>equipment_store := Some (initial_data_mem s)\<rparr>)
     | Some stored \<Rightarrow> (stored, s))"

definition save :: "Equipment \<Rightarrow> storage \<Rightarrow> Equipment \<times> storage" where
  "save equipment s =
    (let (items, s1) = getAll s;
         exists = find (\<lambda>i. eq_id i = eq_id equipment) items;
         newItems = (if exists \<noteq> None
                     then map (\<lambda>i. if eq_id i = eq_id equipment then equipment else i) items
                     else items @ [equipment])
     in (equipment, s1\<lparr>equipment_store := Some newItems\<rparr>))"

definition delete :: "string \<Rightarrow> storage \<Rightarrow> storage" where
  "delete ident s =
    (let (items, s1) = getAll s;
         newItems = filter (\<lambda>i. eq_id i \<noteq> ident) items
     in s1\<lparr>equipment_store := Some newItems\<rparr>)"

text \<open>
  \<^verbatim>\<open>find\<close> returns an element of the array \<^verbatim>\<open>getAll\<close> returned, and the methods below assign
  to its fields. When that array is \<^verbatim>\<open>INITIAL_DATA\<close> itself (nothing was stored when the method
  started, \<open>s0\<close>), the first element with the id is changed in memory too.
\<close>

fun replace_first :: "('a \<Rightarrow> bool) \<Rightarrow> 'a \<Rightarrow> 'a list \<Rightarrow> 'a list" where
  "replace_first P y [] = []"
| "replace_first P y (x # xs) = (if P x then y # xs else x # replace_first P y xs)"

definition assign_found :: "storage \<Rightarrow> string \<Rightarrow> Equipment \<Rightarrow> storage \<Rightarrow> storage" where
  "assign_found s0 ident item s1 =
    (if equipment_store s0 = None
     then s1\<lparr>initial_data_mem := replace_first (\<lambda>i. eq_id i = ident) item (initial_data_mem s1)\<rparr>
     else s1)"

definition toggleStatus :: "string \<Rightarrow> EquipmentStatus \<Rightarrow> storage \<Rightarrow> Equipment option \<times> storage" where
  "toggleStatus ident newStatus s =
    (let (items, s1) = getAll s in
     case find (\<lambda>i. eq_id i = ident) items of
       None \<Rightarrow> (None, s1)
     | Some item \<Rightarrow>
         (let item1 = item\<lparr>status := newStatus\<rparr>;
              s2 = assign_found s ident item1 s1;
              (_, s3) = save item1 s2
          in (Some item1, s3)))"

section \<open>Notification methods\<close>

definition stored_notifications :: "storage \<Rightarrow> AppNotification list" where
  "stored_notifications s = (case notifications_store s of None \<Rightarrow> [] | Some stored \<Rightarrow> stored)"

definition relevant :: "string \<Rightarrow> UserRole \<Rightarrow> AppNotification \<Rightarrow> bool" where
  "relevant userId role n = (recipientRole n = Some role \<or> recipientUserId n = Some userId)"

text \<open>
  \<^verbatim>\<open>sort\<close> with the comparator \<^verbatim>\<open>time(b) - time(a)\<close> puts later instants first and keeps the
  order of equal ones (the sort of \<^verbatim>\<open>Array.prototype\<close> is stable).
\<close>

definition getNotifications :: "string \<Rightarrow> UserRole \<Rightarrow> storage \<Rightarrow> AppNotification list" where
  "getNotifications userId role s =
    (let allNotifications = stored_notifications s
     in sort_key (\<lambda>n. - n_date n) (filter (relevant userId role) allNotifications))"

text \<open>
  \<open>nid\<close> is the text \<^verbatim>\<open>Date.now().toString() + Math.random().toString()\<close> and \<open>now\<close> the
  instant \<^verbatim>\<open>new Date()\<close> of the call.
\<close>

definition createNotification :: "string \<Rightarrow> instant \<Rightarrow> NotificationData \<Rightarrow> storage \<Rightarrow> storage" where
  "createNotification nid now data s =
    (let allNotifications = stored_notifications s;
         newNotification =
           \<lparr>n_id = nid, n_date = now, read = False,
            message = d_message data, n_type = d_type data,
            recipientRole = d_recipientRole data,
            recipientUserId = d_recipientUserId data,
            relatedEquipmentId = d_relatedEquipmentId data\<rparr>
     in s\<lparr>notifications_store := Some (newNotification # allNotifications)\<rparr>)"

definition markNotificationRead :: "string \<Rightarrow> storage \<Rightarrow> storage" where
  "markNotificationRead notificationId s =
    (case notifications_store s of
       None \<Rightarrow> s
     | Some allNotifications \<Rightarrow>
         s\<lparr>notifications_store :=
             Some (map (\<lambda>n. if n_id n = notificationId then n\<lparr>read := True\<rparr> else n)
                       allNotifications)\<rparr>)"

definition markAllRead :: "string \<Rightarrow> UserRole \<Rightarrow> storage \<Rightarrow> storage" where
  "markAllRead userId role s =
    (case notifications_store s of
       None \<Rightarrow> s
     | Some allNotifications \<Rightarrow>
         s\<lparr>notifications_store :=
             Some (map (\<lambda>n. if relevant userId role n then n\<lparr>read := True\<rparr> else n)
                       allNotifications)\<rparr>)"

section \<open>Reporting and resolving\<close>

definition addLog ::
  "string \<Rightarrow> instant \<Rightarrow> string \<Rightarrow> MaintenanceLog \<Rightarrow> storage \<Rightarrow> Equipment option \<times> storage" where
  "addLog nid now ident log s =
    (let (items, s1) = getAll s in
     case find (\<lambda>i. eq_id i = ident) items of
       None \<Rightarrow> (None, s1)
     | Some item \<Rightarrow>
         (let item1 = item\<lparr>logs := logs item @ [log]\<rparr>;
              item2 = item1\<lparr>status := Maintenance\<rparr>;
              s2 = assign_found s ident item2 s1;
              (_, s3) = save item2 s2;
              s4 = createNotification nid now
                     \<lparr>d_message = reportedBy log @ '' reportou um problema em: '' @ name item2,
                      d_type = ''alert'',
                      d_recipientRole = Some Admin,
                      d_recipientUserId = None,
                      d_relatedEquipmentId = Some (eq_id item2)\<rparr> s3
          in (Some item2, s4)))"

text \<open>
  The assignment \<^verbatim>\<open>lastLog.resolvedAt = ...\<close> changes the last element of the item's logs in
  place; it is made only when the logs are not empty.
\<close>

definition stamp_last :: "instant \<Rightarrow> MaintenanceLog list \<Rightarrow> MaintenanceLog list" where
  "stamp_last resolved ls = butlast ls @ [(last ls)\<lparr>resolvedAt := Some resolved\<rparr>]"

text \<open>
  \<open>resolved\<close> is the instant \<^verbatim>\<open>new Date()\<close> written into the last log; \<open>nid\<close> and \<open>now\<close> are
  those of the notification, created after the item has been saved. The local
  \<^verbatim>\<open>reportedById\<close> is \<^verbatim>\<open>undefined\<close> (\<open>None\<close>) unless a last log exists, and the test
  \<^verbatim>\<open>if (reportedById)\<close> fails for \<^verbatim>\<open>undefined\<close> and for the empty string.
\<close>

definition resolveMaintenance ::
  "instant \<Rightarrow> string \<Rightarrow> instant \<Rightarrow> string \<Rightarrow> storage \<Rightarrow> Equipment option \<times> storage" where
  "resolveMaintenance resolved nid now ident s =
    (let (items, s1) = getAll s in
     case find (\<lambda>i. eq_id i = ident) items of
       None \<Rightarrow> (None, s1)
     | Some item \<Rightarrow>
         (let item1 = item\<lparr>status := Available\<rparr>;
              (item2, reporter) =
                (if length (logs item1) > 0
                 then (let lastLog = last (logs item1)
                       in (item1\<lparr>logs := stamp_last resolved (logs item1)\<rparr>,
                           Some (reportedById lastLog)))
                 else (item1, None));
              s2 = assign_found s ident item2 s1;
              (_, s3) = save item2 s2;
              s4 = (case reporter of
                      None \<Rightarrow> s3
                    | Some r \<Rightarrow>
                        if r \<noteq> ''''
                        then createNotification nid now
                               \<lparr>d_message = ''O equipamento '' @ name item2 @ '' foi reparado e est''
                                             @ [CHR 0xC3, CHR 0xA1] @ '' dispon'' @ [CHR 0xC3, CHR 0xAD]
                                             @ ''vel.'',
                                d_type = ''success'',
                                d_recipientRole = None,
                                d_recipientUserId = Some r,
                                d_relatedEquipmentId = Some (eq_id item2)\<rparr> s3
                        else s3)
          in (Some item2, s4)))"

section \<open>Sequences of calls\<close>

text \<open>
  The calls that change the equipment collection, each with the values the environment
  supplies to it (instants and the notification's id), and their effect on the state.
\<close>

datatype facade_call =
    Upsert Equipment
  | Delete string
  | SetStatus string EquipmentStatus
  | ReportIssue string instant string MaintenanceLog
  | Resolve instant string instant string

fun call :: "facade_call \<Rightarrow> storage \<Rightarrow> storage" where
  "call (Upsert e) s = snd (save e s)"
| "call (Delete ident) s = delete ident s"
| "call (SetStatus ident newStatus) s = snd (toggleStatus ident newStatus s)"
| "call (ReportIssue nid now ident log) s = snd (addLog nid now ident log s)"
| "call (Resolve resolved nid now ident) s = snd (resolveMaintenance resolved nid now ident s)"

fun calls :: "facade_call list \<Rightarrow> storage \<Rightarrow> storage" where
  "calls [] s = s"
| "calls (c # cs) s = calls cs (call c s)"

text \<open>
  The status of an item agrees with its most recent log: \<open>Maintenance\<close> while that log has no
  resolution instant, \<open>Available\<close> once it has one. An item without logs has no most recent log.
\<close>

definition status_follows_log :: "Equipment \<Rightarrow> bool" where
  "status_follows_log item =
    (logs item = [] \<or>
     (case resolvedAt (last (logs item)) of
        None \<Rightarrow> status item = Maintenance
      | Some t \<Rightarrow> status item = Available))"

text \<open>
  A call agrees with the logs when the item it writes has a status that agrees with the
  item's most recent log. \<open>save\<close> writes the item it is given; \<open>toggleStatus\<close> and \<open>addLog\<close>
  write the item they find, with the new status or with the log appended and status
  \<open>Maintenance\<close>, and write nothing when they find none. \<open>delete\<close> writes no item, and what
  \<open>resolveMaintenance\<close> writes always agrees. A sequence of calls agrees when each call
  agrees in the state the calls before it have left.
\<close>

fun agreeing_call :: "facade_call \<Rightarrow> storage \<Rightarrow> bool" where
  "agreeing_call (Upsert e) s = status_follows_log e"
| "agreeing_call (Delete ident) s = True"
| "agreeing_call (SetStatus ident newStatus) s =
    (case find (\<lambda>i. eq_id i = ident) (fst (getAll s)) of
       None \<Rightarrow> True
     | Some item \<Rightarrow> status_follows_log (item\<lparr>status := newStatus\<rparr>))"
| "agreeing_call (ReportIssue nid now ident log) s =
    (case find (\<lambda>i. eq_id i = ident) (fst (getAll s)) of
       None \<Rightarrow> True
     | Some item \<Rightarrow> status_follows_log (item\<lparr>logs := logs item @ [log], status := Maintenance\<rparr>))"
| "agreeing_call (Resolve resolved nid now ident) s = True"

fun agreeing_calls :: "facade_call list \<Rightarrow> storage \<Rightarrow> bool" where
  "agreeing_calls [] s = True"
| "agreeing_calls (c # cs) s = (agreeing_call c s \<and> agreeing_calls cs (call c s))"

section \<open>Facts about the store\<close>

lemma getAll_store: "equipment_store (snd (getAll s)) = Some (fst (getAll s))"
  by (simp add: getAll_def split: option.splits)

lemma getAll_notifications: "notifications_store (snd (getAll s)) = notifications_store s"
  by (simp add: getAll_def split: option.splits)

lemma getAll_mem: "initial_data_mem (snd (getAll s)) = initial_data_mem s"
  by (simp add: getAll_def split: option.splits)

lemma getAll_stored: "equipment_store s = Some xs \<Longrightarrow> getAll s = (xs, s)"
  by (simp add: getAll_def)

lemma getAll_assign_found:
  "fst (getAll (assign_found s0 ident e (snd (getAll s)))) = fst (getAll s)"
  by (simp add: assign_found_def getAll_def split: option.splits)

lemma notifications_assign_found:
  "notifications_store (assign_found s0 ident e s1) = notifications_store s1"
  by (simp add: assign_found_def)

lemma save_store:
  "equipment_store (snd (save e s)) =
     Some (if find (\<lambda>i. eq_id i = eq_id e) (fst (getAll s)) \<noteq> None
           then map (\<lambda>i. if eq_id i = eq_id e then e else i) (fst (getAll s))
           else fst (getAll s) @ [e])"
  by (simp add: save_def Let_def split_beta)

lemma save_notifications: "notifications_store (snd (save e s)) = notifications_store s"
  by (simp add: save_def Let_def split_beta getAll_notifications)

lemma find_eq_id: "find (\<lambda>i. eq_id i = ident) items = Some item \<Longrightarrow> eq_id item = ident"
  by (auto simp: find_Some_iff)

lemma find_replaced:
  "find (\<lambda>i. eq_id i = ident) items = Some item \<Longrightarrow> eq_id e = ident \<Longrightarrow>
   find (\<lambda>i. eq_id i = ident) (map (\<lambda>i. if eq_id i = ident then e else i) items) = Some e"
  by (induction items) (auto split: if_splits)

text \<open>What the equipment key holds after an element found by id was changed and saved.\<close>

lemma store_after_found:
  assumes "find (\<lambda>i. eq_id i = ident) (fst (getAll s)) = Some item" and "eq_id e = ident"
  shows "equipment_store (snd (save e (assign_found s ident e (snd (getAll s))))) =
           Some (map (\<lambda>i. if eq_id i = ident then e else i) (fst (getAll s)))"
  using assms by (simp add: save_store getAll_assign_found)

lemma notifications_after_found:
  "notifications_store (snd (save e (assign_found s ident e (snd (getAll s))))) =
     notifications_store s"
  by (simp add: save_notifications notifications_assign_found getAll_notifications)

lemma stored_createNotification:
  "stored_notifications (createNotification nid now d s) =
     \<lparr>n_id = nid, n_date = now, read = False, message = d_message d, n_type = d_type d,
      recipientRole = d_recipientRole d, recipientUserId = d_recipientUserId d,
      relatedEquipmentId = d_relatedEquipmentId d\<rparr> # stored_notifications s"
  by (simp add: createNotification_def stored_notifications_def)

lemma equipment_createNotification:
  "equipment_store (createNotification nid now d s) = equipment_store s"
  by (simp add: createNotification_def)

lemma stored_notifications_cong:
  "notifications_store s = notifications_store t \<Longrightarrow>
   stored_notifications s = stored_notifications t"
  by (simp add: stored_notifications_def)

section \<open>Reporting an issue\<close>

text \<open>
  Claim C1. When \<open>ident\<close> is the id of a record of the collection (\<open>item\<close> being the first
  such record, the one \<^verbatim>\<open>find\<close> returns), \<open>addLog\<close> returns and persists that item with status
  \<open>Maintenance\<close> and with the given log appended last to its logs, so with one log more; and
  the notification store holds exactly one notification more, put in front, whose recipient
  role is \<open>Admin\<close>.
\<close>

theorem addLog_reports:
  assumes found: "find (\<lambda>i. eq_id i = ident) (fst (getAll s)) = Some item"
  shows
    "fst (addLog nid now ident log s) =
       Some (item\<lparr>logs := logs item @ [log], status := Maintenance\<rparr>) \<and>
     equipment_store (snd (addLog nid now ident log s)) =
       Some (map (\<lambda>i. if eq_id i = ident
                       then item\<lparr>logs := logs item @ [log], status := Maintenance\<rparr> else i)
                 (fst (getAll s))) \<and>
     find (\<lambda>i. eq_id i = ident) (fst (getAll (snd (addLog nid now ident log s)))) =
       Some (item\<lparr>logs := logs item @ [log], status := Maintenance\<rparr>) \<and>
     length (logs (item\<lparr>logs := logs item @ [log], status := Maintenance\<rparr>)) =
       length (logs item) + 1 \<and>
     stored_notifications (snd (addLog nid now ident log s)) =
       \<lparr>n_id = nid, n_date = now, read = False,
        message = reportedBy log @ '' reportou um problema em: '' @ name item,
        n_type = ''alert'', recipientRole = Some Admin, recipientUserId = None,
        relatedEquipmentId = Some ident\<rparr> # stored_notifications s"
proof -
  define e where "e = item\<lparr>logs := logs item @ [log], status := Maintenance\<rparr>"
  define s3 where "s3 = snd (save e (assign_found s ident e (snd (getAll s))))"
  define d where
    "d = \<lparr>d_message = reportedBy log @ '' reportou um problema em: '' @ name e,
          d_type = ''alert'', d_recipientRole = Some Admin, d_recipientUserId = None,
          d_relatedEquipmentId = Some (eq_id e)\<rparr>"
  have ident: "eq_id e = ident"
    using find_eq_id[OF found] by (simp add: e_def)
  have run: "addLog nid now ident log s = (Some e, createNotification nid now d s3)"
    using found by (simp add: addLog_def Let_def split_beta e_def s3_def d_def)
  have store: "equipment_store s3 =
      Some (map (\<lambda>i. if eq_id i = ident then e else i) (fst (getAll s)))"
    unfolding s3_def using found ident by (rule store_after_found)
  have notifs: "stored_notifications s3 = stored_notifications s"
    unfolding s3_def by (rule stored_notifications_cong) (rule notifications_after_found)
  have c1: "fst (addLog nid now ident log s) = Some e"
    by (simp add: run)
  have c2: "equipment_store (snd (addLog nid now ident log s)) =
      Some (map (\<lambda>i. if eq_id i = ident then e else i) (fst (getAll s)))"
    by (simp add: run equipment_createNotification store)
  have c3: "find (\<lambda>i. eq_id i = ident) (fst (getAll (snd (addLog nid now ident log s)))) = Some e"
    by (simp add: getAll_stored[OF c2] find_replaced[OF found ident])
  have c4: "length (logs e) = length (logs item) + 1"
    by (simp add: e_def)
  have c5: "stored_notifications (snd (addLog nid now ident log s)) =
       \<lparr>n_id = nid, n_date = now, read = False,
        message = reportedBy log @ '' reportou um problema em: '' @ name item,
        n_type = ''alert'', recipientRole = Some Admin, recipientUserId = None,
        relatedEquipmentId = Some ident\<rparr> # stored_notifications s"
    using ident by (simp add: run stored_createNotification notifs d_def e_def)
  from c1 c2 c3 c4 c5 show ?thesis
    unfolding e_def by (intro conjI)
qed

theorem addLog_reports_witness:
  "find (\<lambda>i. eq_id i = ''1'') (fst (getAll fresh)) = Some (hd INITIAL_DATA) \<and>
   map status (the (equipment_store (snd (addLog ''n1'' 1700000000000 ''1''
       \<lparr>log_id = ''1700000000000'', log_date = ''2023-11-14T22:13:20.000Z'',
        description = ''Chiado'', reportedBy = ''Ana'', reportedById = ''user-1'',
        resolvedAt = None\<rparr> fresh)))) = [Maintenance, In_use, Maintenance, Available] \<and>
   map recipientRole (stored_notifications (snd (addLog ''n1'' 1700000000000 ''1''
       \<lparr>log_id = ''1700000000000'', log_date = ''2023-11-14T22:13:20.000Z'',
        description = ''Chiado'', reportedBy = ''Ana'', reportedById = ''user-1'',
        resolvedAt = None\<rparr> fresh))) = [Some Admin]"
proof -
  have h: "find (\<lambda>i. eq_id i = ''1'') (fst (getAll fresh)) = Some (hd INITIAL_DATA)"
    by (simp add: fresh_def getAll_def INITIAL_DATA_def)
  have all: "fst (getAll fresh) = INITIAL_DATA"
    by (simp add: fresh_def getAll_def)
  have none: "stored_notifications fresh = []"
    by (simp add: fresh_def stored_notifications_def)
  show ?thesis
    using h addLog_reports[OF h, of "''n1''" 1700000000000
        "\<lparr>log_id = ''1700000000000'', log_date = ''2023-11-14T22:13:20.000Z'',
          description = ''Chiado'', reportedBy = ''Ana'', reportedById = ''user-1'',
          resolvedAt = None\<rparr>"]
    by (simp add: all none INITIAL_DATA_def)
qed

section \<open>Resolving\<close>

lemma stamp_last_length: "ls \<noteq> [] \<Longrightarrow> length (stamp_last resolved ls) = length ls"
  by (cases ls rule: rev_cases) (simp_all add: stamp_last_def)

lemma stamp_last_nth:
  "k < length ls - 1 \<Longrightarrow> stamp_last resolved ls ! k = ls ! k"
  by (cases ls rule: rev_cases) (simp_all add: stamp_last_def nth_append)

lemma stamp_last_last:
  "last (stamp_last resolved ls) = (last ls)\<lparr>resolvedAt := Some resolved\<rparr>"
  by (simp add: stamp_last_def)

lemma stamp_last_not_Nil: "stamp_last resolved ls \<noteq> []"
  by (simp add: stamp_last_def)

text \<open>The run of \<open>resolveMaintenance\<close> on a found item, by whether the item has logs.\<close>

lemma resolveMaintenance_no_logs:
  assumes "find (\<lambda>i. eq_id i = ident) (fst (getAll s)) = Some item" and "logs item = []"
  shows "resolveMaintenance resolved nid now ident s =
    (Some (item\<lparr>status := Available\<rparr>),
     snd (save (item\<lparr>status := Available\<rparr>)
            (assign_found s ident (item\<lparr>status := Available\<rparr>) (snd (getAll s)))))"
  using assms by (simp add: resolveMaintenance_def Let_def split_beta)

lemma resolveMaintenance_logs:
  assumes "find (\<lambda>i. eq_id i = ident) (fst (getAll s)) = Some item" and "logs item \<noteq> []"
  shows "resolveMaintenance resolved nid now ident s =
    (Some (item\<lparr>status := Available, logs := stamp_last resolved (logs item)\<rparr>),
     (if reportedById (last (logs item)) \<noteq> ''''
      then createNotification nid now
             \<lparr>d_message = ''O equipamento '' @ name item @ '' foi reparado e est''
                           @ [CHR 0xC3, CHR 0xA1] @ '' dispon'' @ [CHR 0xC3, CHR 0xAD] @ ''vel.'',
              d_type = ''success'', d_recipientRole = None,
              d_recipientUserId = Some (reportedById (last (logs item))),
              d_relatedEquipmentId = Some (eq_id item)\<rparr>
      else (\<lambda>t. t))
       (snd (save (item\<lparr>status := Available, logs := stamp_last resolved (logs item)\<rparr>)
              (assign_found s ident
                 (item\<lparr>status := Available, logs := stamp_last resolved (logs item)\<rparr>)
                 (snd (getAll s))))))"
  using assms by (simp add: resolveMaintenance_def Let_def split_beta)

lemma equipment_resolveMaintenance:
  assumes found: "find (\<lambda>i. eq_id i = ident) (fst (getAll s)) = Some item"
  shows "equipment_store (snd (resolveMaintenance resolved nid now ident s)) =
    Some (map (\<lambda>i. if eq_id i = ident
                    then (if logs item = [] then item\<lparr>status := Available\<rparr>
                          else item\<lparr>status := Available, logs := stamp_last resolved (logs item)\<rparr>)
                    else i)
              (fst (getAll s)))"
proof (cases "logs item = []")
  case True
  have "eq_id (item\<lparr>status := Available\<rparr>) = ident"
    using find_eq_id[OF found] by simp
  from store_after_found[OF found this] True show ?thesis
    by (simp add: resolveMaintenance_no_logs[OF found True])
next
  case False
  have "eq_id (item\<lparr>status := Available, logs := stamp_last resolved (logs item)\<rparr>) = ident"
    using find_eq_id[OF found] by simp
  from store_after_found[OF found this] False show ?thesis
    by (simp add: resolveMaintenance_logs[OF found False] equipment_createNotification)
qed

lemma notifications_resolveMaintenance_logs:
  assumes found: "find (\<lambda>i. eq_id i = ident) (fst (getAll s)) = Some item"
    and "logs item \<noteq> []"
  shows "stored_notifications (snd (resolveMaintenance resolved nid now ident s)) =
    (if reportedById (last (logs item)) \<noteq> ''''
     then [\<lparr>n_id = nid, n_date = now, read = False,
            message = ''O equipamento '' @ name item @ '' foi reparado e est''
                      @ [CHR 0xC3, CHR 0xA1] @ '' dispon'' @ [CHR 0xC3, CHR 0xAD] @ ''vel.'',
            n_type = ''success'', recipientRole = None,
            recipientUserId = Some (reportedById (last (logs item))),
            relatedEquipmentId = Some ident\<rparr>]
     else []) @ stored_notifications s"
proof -
  have "stored_notifications (snd (save e (assign_found s ident e (snd (getAll s))))) =
      stored_notifications s" for e
    by (rule stored_notifications_cong) (rule notifications_after_found)
  then show ?thesis
    using find_eq_id[OF found]
    by (simp add: resolveMaintenance_logs[OF assms] stored_createNotification)
qed

text \<open>
  Claim C2, as amended. When \<open>ident\<close> is the id of a record of the collection (\<open>item\<close> the
  first such record) and that item has at least one log, \<open>resolveMaintenance\<close> returns and
  persists the item with status \<open>Available\<close> and with the resolution instant of its last log
  set to the instant of the call. When the reporter id of that last log is not the empty
  string, the notification store holds exactly one notification more, put in front, of type
  success and addressed to that reporter id; when it is the empty string, no notification is
  created.
\<close>

theorem resolveMaintenance_resolves:
  assumes found: "find (\<lambda>i. eq_id i = ident) (fst (getAll s)) = Some item"
    and logged: "logs item \<noteq> []"
  shows
    "fst (resolveMaintenance resolved nid now ident s) =
       Some (item\<lparr>status := Available, logs := stamp_last resolved (logs item)\<rparr>) \<and>
     find (\<lambda>i. eq_id i = ident)
          (fst (getAll (snd (resolveMaintenance resolved nid now ident s)))) =
       Some (item\<lparr>status := Available, logs := stamp_last resolved (logs item)\<rparr>) \<and>
     status (item\<lparr>status := Available, logs := stamp_last resolved (logs item)\<rparr>) = Available \<and>
     resolvedAt (last (logs (item\<lparr>status := Available, logs := stamp_last resolved (logs item)\<rparr>))) =
       Some resolved \<and>
     stored_notifications (snd (resolveMaintenance resolved nid now ident s)) =
       (if reportedById (last (logs item)) \<noteq> ''''
        then [\<lparr>n_id = nid, n_date = now, read = False,
               message = ''O equipamento '' @ name item @ '' foi reparado e est''
                         @ [CHR 0xC3, CHR 0xA1] @ '' dispon'' @ [CHR 0xC3, CHR 0xAD] @ ''vel.'',
               n_type = ''success'', recipientRole = None,
               recipientUserId = Some (reportedById (last (logs item))),
               relatedEquipmentId = Some ident\<rparr>]
        else []) @ stored_notifications s"
proof -
  define e where "e = item\<lparr>status := Available, logs := stamp_last resolved (logs item)\<rparr>"
  have ident: "eq_id e = ident"
    using find_eq_id[OF found] by (simp add: e_def)
  have c1: "fst (resolveMaintenance resolved nid now ident s) = Some e"
    by (simp add: resolveMaintenance_logs[OF found logged] e_def)
  have store: "equipment_store (snd (resolveMaintenance resolved nid now ident s)) =
      Some (map (\<lambda>i. if eq_id i = ident then e else i) (fst (getAll s)))"
    using logged by (simp add: equipment_resolveMaintenance[OF found] e_def)
  have c2: "find (\<lambda>i. eq_id i = ident)
      (fst (getAll (snd (resolveMaintenance resolved nid now ident s)))) = Some e"
    by (simp add: getAll_stored[OF store] find_replaced[OF found ident])
  have c3: "status e = Available"
    by (simp add: e_def)
  have c4: "resolvedAt (last (logs e)) = Some resolved"
    by (simp add: e_def stamp_last_last)
  note c5 = notifications_resolveMaintenance_logs[OF found logged, of resolved nid now]
  from c1 c2 c3 c4 c5 show ?thesis
    unfolding e_def by (intro conjI)
qed

theorem resolveMaintenance_resolves_witness:
  "find (\<lambda>i. eq_id i = ''3'') (fst (getAll fresh)) = Some (INITIAL_DATA ! 2) \<and>
   logs (INITIAL_DATA ! 2) \<noteq> [] \<and>
   map recipientUserId
     (stored_notifications (snd (resolveMaintenance 1700000000000 ''n1'' 1700000000500 ''3'' fresh))) =
     [Some ''user-1''] \<and>
   map n_type
     (stored_notifications (snd (resolveMaintenance 1700000000000 ''n1'' 1700000000500 ''3'' fresh))) =
     [''success'']"
proof -
  have h: "find (\<lambda>i. eq_id i = ''3'') (fst (getAll fresh)) = Some (INITIAL_DATA ! 2)"
    by (simp add: fresh_def getAll_def INITIAL_DATA_def)
  have l: "logs (INITIAL_DATA ! 2) \<noteq> []"
    by (simp add: INITIAL_DATA_def)
  have none: "stored_notifications fresh = []"
    by (simp add: fresh_def stored_notifications_def)
  show ?thesis
    using h l resolveMaintenance_resolves[OF h l, of 1700000000000 "''n1''" 1700000000500]
    by (simp add: none INITIAL_DATA_def)
qed

text \<open>
  The claim as it was stated fails for a last log whose reporter id is the empty string:
  the item ''1'' of the seed data is reported with such a log and then resolved, and the
  notification store is the same after the resolution as before it.
\<close>

theorem resolveMaintenance_empty_reporter_counterexample:
  "map (\<lambda>i. (eq_id i, map reportedById (logs i)))
     (fst (getAll (snd (addLog ''n1'' 1700000000000 ''1''
        \<lparr>log_id = ''1700000000000'', log_date = ''2023-11-14T22:13:20.000Z'',
         description = ''Chiado'', reportedBy = ''Ana'', reportedById = '''',
         resolvedAt = None\<rparr> fresh)))) =
     [(''1'', ['''']), (''2'', []), (''3'', [''user-1'']), (''4'', [])] \<and>
   stored_notifications
     (snd (resolveMaintenance 1700000100000 ''n2'' 1700000100500 ''1''
        (snd (addLog ''n1'' 1700000000000 ''1''
          \<lparr>log_id = ''1700000000000'', log_date = ''2023-11-14T22:13:20.000Z'',
           description = ''Chiado'', reportedBy = ''Ana'', reportedById = '''',
           resolvedAt = None\<rparr> fresh)))) =
   stored_notifications
     (snd (addLog ''n1'' 1700000000000 ''1''
        \<lparr>log_id = ''1700000000000'', log_date = ''2023-11-14T22:13:20.000Z'',
         description = ''Chiado'', reportedBy = ''Ana'', reportedById = '''',
         resolvedAt = None\<rparr> fresh))"
  by (simp add: resolveMaintenance_def addLog_def save_def getAll_def assign_found_def
      createNotification_def stored_notifications_def fresh_def INITIAL_DATA_def
      stamp_last_def Let_def)

section \<open>Listing, saving and deleting\<close>

lemma getAll_fixed: "((\<lambda>t. snd (getAll t)) ^^ n) (snd (getAll s)) = snd (getAll s)"
  by (induction n) (simp_all add: getAll_def split: option.splits)

text \<open>
  Claim C6. In a state with no equipment data stored and with \<^verbatim>\<open>INITIAL_DATA\<close> as the module
  declares it (so at the first call of the page), \<open>getAll\<close> returns the four seed records and
  stores them; every later \<open>getAll\<close>, with no other call in between, returns those same four
  records and leaves the state as it is.
\<close>

theorem getAll_seeds:
  assumes "equipment_store s = None" and "initial_data_mem s = INITIAL_DATA"
  shows
    "fst (getAll s) = INITIAL_DATA \<and>
     length INITIAL_DATA = 4 \<and>
     map eq_id INITIAL_DATA = [''1'', ''2'', ''3'', ''4''] \<and>
     equipment_store (snd (getAll s)) = Some INITIAL_DATA \<and>
     (\<forall>n. getAll (((\<lambda>t. snd (getAll t)) ^^ n) (snd (getAll s))) = (INITIAL_DATA, snd (getAll s)))"
proof -
  have first: "fst (getAll s) = INITIAL_DATA"
    using assms by (simp add: getAll_def)
  have stored: "equipment_store (snd (getAll s)) = Some INITIAL_DATA"
    using assms by (simp add: getAll_def)
  have later: "getAll (((\<lambda>t. snd (getAll t)) ^^ n) (snd (getAll s))) =
      (INITIAL_DATA, snd (getAll s))" for n
    by (simp add: getAll_fixed getAll_stored[OF stored])
  have four: "length INITIAL_DATA = 4" "map eq_id INITIAL_DATA = [''1'', ''2'', ''3'', ''4'']"
    by (simp_all add: INITIAL_DATA_def)
  from first stored later four show ?thesis by blast
qed

theorem getAll_seeds_witness:
  "equipment_store fresh = None \<and> initial_data_mem fresh = INITIAL_DATA \<and>
   fst (getAll fresh) = INITIAL_DATA \<and>
   fst (getAll (snd (getAll (snd (getAll fresh))))) = INITIAL_DATA"
proof -
  have h1: "equipment_store fresh = None" and h2: "initial_data_mem fresh = INITIAL_DATA"
    by (simp_all add: fresh_def)
  have "getAll (((\<lambda>t. snd (getAll t)) ^^ 1) (snd (getAll fresh))) =
      (INITIAL_DATA, snd (getAll fresh))"
    using getAll_seeds[OF h1 h2] by blast
  then have "fst (getAll (snd (getAll (snd (getAll fresh))))) = INITIAL_DATA"
    by simp
  with h1 h2 getAll_seeds[OF h1 h2] show ?thesis by simp
qed

lemma find_present:
  "find (\<lambda>i. eq_id i = ident) items \<noteq> None \<longleftrightarrow> ident \<in> set (map eq_id items)"
  by (induction items) auto

text \<open>
  Claim C5. \<open>save\<close> returns the item it was given. When the collection has a record with the
  item's id, the stored collection has the same length and holds the item at every position
  where that id stood and the old record at every other position; when it has none, the
  stored collection is the old one with the item appended, one record longer.
\<close>

theorem save_upserts:
  "fst (save equipment s) = equipment \<and>
   equipment_store (snd (save equipment s)) = Some (fst (getAll (snd (save equipment s)))) \<and>
   (if eq_id equipment \<in> set (map eq_id (fst (getAll s)))
    then length (fst (getAll (snd (save equipment s)))) = length (fst (getAll s)) \<and>
         (\<forall>j < length (fst (getAll s)).
            fst (getAll (snd (save equipment s))) ! j =
              (if eq_id (fst (getAll s) ! j) = eq_id equipment then equipment
               else fst (getAll s) ! j))
    else fst (getAll (snd (save equipment s))) = fst (getAll s) @ [equipment] \<and>
         length (fst (getAll (snd (save equipment s)))) = length (fst (getAll s)) + 1 \<and>
         (\<forall>j < length (fst (getAll s)).
            fst (getAll (snd (save equipment s))) ! j = fst (getAll s) ! j))"
proof -
  have ret: "fst (save equipment s) = equipment"
    by (simp add: save_def Let_def split_beta)
  have present: "find (\<lambda>i. eq_id i = eq_id equipment) (fst (getAll s)) \<noteq> None \<longleftrightarrow>
      eq_id equipment \<in> set (map eq_id (fst (getAll s)))"
    by (rule find_present)
  have after: "getAll (snd (save equipment s)) =
      (if eq_id equipment \<in> set (map eq_id (fst (getAll s)))
       then map (\<lambda>i. if eq_id i = eq_id equipment then equipment else i) (fst (getAll s))
       else fst (getAll s) @ [equipment], snd (save equipment s))"
    by (rule getAll_stored) (simp only: save_store present)
  have stored: "equipment_store (snd (save equipment s)) =
      Some (fst (getAll (snd (save equipment s))))"
    by (simp only: save_store present after fst_conv)
  show ?thesis
  proof (cases "eq_id equipment \<in> set (map eq_id (fst (getAll s)))")
    case True
    with ret stored show ?thesis
      by (simp add: after)
  next
    case False
    with ret stored show ?thesis
      by (simp add: after nth_append)
  qed
qed

theorem save_upserts_witness:
  "length (fst (getAll (snd (save
      \<lparr>eq_id = ''2'', name = ''Behringer X32'', brand = ''Behringer'', category = ''Mesas de Som'',
       status = Available, purchaseDate = ''2022-05-20'', logs = []\<rparr> fresh)))) = 4 \<and>
   fst (getAll (snd (save
      \<lparr>eq_id = ''2'', name = ''Behringer X32'', brand = ''Behringer'', category = ''Mesas de Som'',
       status = Available, purchaseDate = ''2022-05-20'', logs = []\<rparr> fresh))) ! 1 =
     \<lparr>eq_id = ''2'', name = ''Behringer X32'', brand = ''Behringer'', category = ''Mesas de Som'',
      status = Available, purchaseDate = ''2022-05-20'', logs = []\<rparr> \<and>
   fst (getAll (snd (save
      \<lparr>eq_id = ''2'', name = ''Behringer X32'', brand = ''Behringer'', category = ''Mesas de Som'',
       status = Available, purchaseDate = ''2022-05-20'', logs = []\<rparr> fresh))) ! 2 =
     INITIAL_DATA ! 2 \<and>
   fst (getAll (snd (save
      \<lparr>eq_id = ''5'', name = ''Pedestal'', brand = ''RMV'', category = ''Suportes'',
       status = Available, purchaseDate = ''2024-02-01'', logs = []\<rparr> fresh))) =
     INITIAL_DATA @
       [\<lparr>eq_id = ''5'', name = ''Pedestal'', brand = ''RMV'', category = ''Suportes'',
         status = Available, purchaseDate = ''2024-02-01'', logs = []\<rparr>]"
proof -
  define e2 where "e2 = \<lparr>eq_id = ''2'', name = ''Behringer X32'', brand = ''Behringer'',
    category = ''Mesas de Som'', status = Available, purchaseDate = ''2022-05-20'', logs = []\<rparr>"
  define e5 where "e5 = \<lparr>eq_id = ''5'', name = ''Pedestal'', brand = ''RMV'',
    category = ''Suportes'', status = Available, purchaseDate = ''2024-02-01'', logs = []\<rparr>"
  have all: "fst (getAll fresh) = INITIAL_DATA"
    by (simp add: fresh_def getAll_def)
  have ids: "map eq_id INITIAL_DATA = [''1'', ''2'', ''3'', ''4'']"
    by (simp add: INITIAL_DATA_def)
  have four: "length INITIAL_DATA = 4"
    by (simp add: INITIAL_DATA_def)
  have "eq_id e2 \<in> set (map eq_id (fst (getAll fresh)))"
    by (simp add: all ids e2_def)
  with save_upserts[of e2 fresh]
  have len: "length (fst (getAll (snd (save e2 fresh)))) = 4"
    and nth: "\<forall>j<4. fst (getAll (snd (save e2 fresh))) ! j =
        (if eq_id (INITIAL_DATA ! j) = eq_id e2 then e2 else INITIAL_DATA ! j)"
    by (simp_all add: all four)
  from nth have "fst (getAll (snd (save e2 fresh))) ! 1 =
      (if eq_id (INITIAL_DATA ! 1) = eq_id e2 then e2 else INITIAL_DATA ! 1)"
    by simp
  then have second: "fst (getAll (snd (save e2 fresh))) ! 1 = e2"
    by (simp add: INITIAL_DATA_def e2_def)
  from nth have "fst (getAll (snd (save e2 fresh))) ! 2 =
      (if eq_id (INITIAL_DATA ! 2) = eq_id e2 then e2 else INITIAL_DATA ! 2)"
    by simp
  then have third: "fst (getAll (snd (save e2 fresh))) ! 2 = INITIAL_DATA ! 2"
    by (simp add: INITIAL_DATA_def e2_def)
  have "eq_id e5 \<notin> set (map eq_id (fst (getAll fresh)))"
    by (simp add: all ids e5_def)
  with save_upserts[of e5 fresh]
  have new: "fst (getAll (snd (save e5 fresh))) = INITIAL_DATA @ [e5]"
    by (simp add: all)
  from len second third new show ?thesis
    unfolding e2_def e5_def by (intro conjI)
qed

text \<open>
  Claim C9, as amended. \<open>delete\<close> stores the collection without the records whose id is
  \<open>ident\<close>: the records with another id stay as they were and in their order, and the
  collection is shorter by the number of records that had the id, which is one when the id
  stood once and none when it did not stand in the collection.
\<close>

theorem delete_removes_matching:
  "equipment_store (delete ident s) = Some (filter (\<lambda>i. eq_id i \<noteq> ident) (fst (getAll s))) \<and>
   fst (getAll (delete ident s)) = filter (\<lambda>i. eq_id i \<noteq> ident) (fst (getAll s)) \<and>
   length (fst (getAll (delete ident s))) + length (filter (\<lambda>i. eq_id i = ident) (fst (getAll s))) =
     length (fst (getAll s)) \<and>
   notifications_store (delete ident s) = notifications_store s"
proof -
  have stored: "equipment_store (delete ident s) =
      Some (filter (\<lambda>i. eq_id i \<noteq> ident) (fst (getAll s)))"
    by (simp add: delete_def Let_def split_beta)
  have count: "length (filter (\<lambda>i. eq_id i \<noteq> ident) xs) + length (filter (\<lambda>i. eq_id i = ident) xs) =
      length xs" for xs :: "Equipment list"
    by (induction xs) simp_all
  have kept: "notifications_store (delete ident s) = notifications_store s"
    by (simp add: delete_def Let_def split_beta getAll_notifications)
  from stored count kept show ?thesis
    by (simp add: getAll_stored[OF stored])
qed

text \<open>
  The claim as it was stated fails for an id that no record has: deleting ''9'' from the
  seed data removes no record.
\<close>

theorem delete_absent_counterexample:
  "fst (getAll (delete ''9'' fresh)) = fst (getAll fresh) \<and>
   length (fst (getAll (delete ''9'' fresh))) = 4"
  by (simp add: delete_def getAll_def fresh_def INITIAL_DATA_def Let_def)

section \<open>The collection after a call\<close>

lemma toggleStatus_absent:
  "find (\<lambda>i. eq_id i = ident) (fst (getAll s)) = None \<Longrightarrow>
   toggleStatus ident newStatus s = (None, snd (getAll s))"
  by (simp add: toggleStatus_def Let_def split_beta)

lemma addLog_absent:
  "find (\<lambda>i. eq_id i = ident) (fst (getAll s)) = None \<Longrightarrow>
   addLog nid now ident log s = (None, snd (getAll s))"
  by (simp add: addLog_def Let_def split_beta)

lemma resolveMaintenance_absent:
  "find (\<lambda>i. eq_id i = ident) (fst (getAll s)) = None \<Longrightarrow>
   resolveMaintenance resolved nid now ident s = (None, snd (getAll s))"
  by (simp add: resolveMaintenance_def Let_def split_beta)

lemma getAll_collection: "fst (getAll (snd (getAll s))) = fst (getAll s)"
  by (simp add: getAll_def split: option.splits)

lemma equipment_toggleStatus:
  assumes found: "find (\<lambda>i. eq_id i = ident) (fst (getAll s)) = Some item"
  shows "equipment_store (snd (toggleStatus ident newStatus s)) =
    Some (map (\<lambda>i. if eq_id i = ident then item\<lparr>status := newStatus\<rparr> else i) (fst (getAll s)))"
proof -
  have "eq_id (item\<lparr>status := newStatus\<rparr>) = ident"
    using find_eq_id[OF found] by simp
  from store_after_found[OF found this] show ?thesis
    using found by (simp add: toggleStatus_def Let_def split_beta)
qed

lemma equipment_addLog:
  assumes found: "find (\<lambda>i. eq_id i = ident) (fst (getAll s)) = Some item"
  shows "equipment_store (snd (addLog nid now ident log s)) =
    Some (map (\<lambda>i. if eq_id i = ident
                    then item\<lparr>logs := logs item @ [log], status := Maintenance\<rparr> else i)
              (fst (getAll s)))"
proof -
  have "eq_id (item\<lparr>logs := logs item @ [log], status := Maintenance\<rparr>) = ident"
    using find_eq_id[OF found] by simp
  from store_after_found[OF found this] show ?thesis
    using found by (simp add: addLog_def Let_def split_beta equipment_createNotification)
qed

text \<open>The item each method writes in place of the one it found.\<close>

lemma collection_toggleStatus:
  "fst (getAll (snd (toggleStatus ident newStatus s))) =
    (case find (\<lambda>i. eq_id i = ident) (fst (getAll s)) of
       None \<Rightarrow> fst (getAll s)
     | Some item \<Rightarrow>
         map (\<lambda>i. if eq_id i = ident then item\<lparr>status := newStatus\<rparr> else i) (fst (getAll s)))"
proof (cases "find (\<lambda>i. eq_id i = ident) (fst (getAll s))")
  case None
  then show ?thesis
    by (simp add: toggleStatus_absent getAll_collection)
next
  case (Some item)
  then show ?thesis
    by (simp add: getAll_stored[OF equipment_toggleStatus[OF Some]])
qed

lemma collection_addLog:
  "fst (getAll (snd (addLog nid now ident log s))) =
    (case find (\<lambda>i. eq_id i = ident) (fst (getAll s)) of
       None \<Rightarrow> fst (getAll s)
     | Some item \<Rightarrow>
         map (\<lambda>i. if eq_id i = ident
                  then item\<lparr>logs := logs item @ [log], status := Maintenance\<rparr> else i)
             (fst (getAll s)))"
proof (cases "find (\<lambda>i. eq_id i = ident) (fst (getAll s))")
  case None
  then show ?thesis
    by (simp add: addLog_absent getAll_collection)
next
  case (Some item)
  then show ?thesis
    by (simp add: getAll_stored[OF equipment_addLog[OF Some]])
qed

lemma collection_resolveMaintenance:
  "fst (getAll (snd (resolveMaintenance resolved nid now ident s))) =
    (case find (\<lambda>i. eq_id i = ident) (fst (getAll s)) of
       None \<Rightarrow> fst (getAll s)
     | Some item \<Rightarrow>
         map (\<lambda>i. if eq_id i = ident
                  then (if logs item = [] then item\<lparr>status := Available\<rparr>
                        else item\<lparr>status := Available, logs := stamp_last resolved (logs item)\<rparr>)
                  else i)
             (fst (getAll s)))"
proof (cases "find (\<lambda>i. eq_id i = ident) (fst (getAll s))")
  case None
  then show ?thesis
    by (simp add: resolveMaintenance_absent getAll_collection)
next
  case (Some item)
  then show ?thesis
    by (simp only: getAll_stored[OF equipment_resolveMaintenance[OF Some]] fst_conv
        option.case)
qed

lemma collection_save:
  "fst (getAll (snd (save e s))) =
     (if find (\<lambda>i. eq_id i = eq_id e) (fst (getAll s)) \<noteq> None
      then map (\<lambda>i. if eq_id i = eq_id e then e else i) (fst (getAll s))
      else fst (getAll s) @ [e])"
  by (simp only: getAll_stored[OF save_store] fst_conv)

lemma collection_delete:
  "fst (getAll (delete ident s)) = filter (\<lambda>i. eq_id i \<noteq> ident) (fst (getAll s))"
  by (simp add: delete_def Let_def split_beta getAll_def)

section \<open>Ids that are not in the collection\<close>

lemma find_absent:
  "ident \<notin> set (map eq_id items) \<Longrightarrow> find (\<lambda>i. eq_id i = ident) items = None"
  by (auto simp: find_None_iff)

lemma getAll_writes: "snd (getAll s) = s\<lparr>equipment_store := Some (fst (getAll s))\<rparr>"
  by (cases s) (simp add: getAll_def split: option.splits)

text \<open>
  Claim C8, as amended. When no record of the collection has the id \<open>ident\<close>, \<open>addLog\<close> and
  \<open>resolveMaintenance\<close> return \<^verbatim>\<open>undefined\<close> (\<open>None\<close>) and leave the state as the \<open>getAll\<close> they
  begin with leaves it: the equipment key holds the collection that \<open>getAll\<close> read and nothing
  else is changed. So no log is appended, no status is changed and no notification is
  created; the collection read after the call is the one read before it; a state that held
  equipment data is exactly as it was; and in a state that held none the equipment key,
  empty before, holds the seed array after the call.
\<close>

theorem absent_id_noop:
  assumes absent: "ident \<notin> set (map eq_id (fst (getAll s)))"
  shows
    "addLog nid now ident log s = (None, s\<lparr>equipment_store := Some (fst (getAll s))\<rparr>) \<and>
     resolveMaintenance resolved nid' now' ident s =
       (None, s\<lparr>equipment_store := Some (fst (getAll s))\<rparr>) \<and>
     fst (getAll (snd (addLog nid now ident log s))) = fst (getAll s) \<and>
     fst (getAll (snd (resolveMaintenance resolved nid' now' ident s))) = fst (getAll s) \<and>
     notifications_store (snd (addLog nid now ident log s)) = notifications_store s \<and>
     notifications_store (snd (resolveMaintenance resolved nid' now' ident s)) =
       notifications_store s \<and>
     (equipment_store s \<noteq> None \<longrightarrow>
        snd (addLog nid now ident log s) = s \<and>
        snd (resolveMaintenance resolved nid' now' ident s) = s) \<and>
     (equipment_store s = None \<longrightarrow>
        equipment_store (snd (addLog nid now ident log s)) = Some (initial_data_mem s) \<and>
        equipment_store (snd (resolveMaintenance resolved nid' now' ident s)) =
          Some (initial_data_mem s))"
proof -
  have none: "find (\<lambda>i. eq_id i = ident) (fst (getAll s)) = None"
    using absent by (rule find_absent)
  have report: "addLog nid now ident log s = (None, snd (getAll s))"
    using none by (rule addLog_absent)
  have resolve: "resolveMaintenance resolved nid' now' ident s = (None, snd (getAll s))"
    using none by (rule resolveMaintenance_absent)
  have c1: "addLog nid now ident log s = (None, s\<lparr>equipment_store := Some (fst (getAll s))\<rparr>)"
    using report getAll_writes[of s] by simp
  have c2: "resolveMaintenance resolved nid' now' ident s =
      (None, s\<lparr>equipment_store := Some (fst (getAll s))\<rparr>)"
    using resolve getAll_writes[of s] by simp
  have c3: "fst (getAll (snd (getAll s))) = fst (getAll s)"
    by (rule getAll_collection)
  have c4: "notifications_store (snd (getAll s)) = notifications_store s"
    by (rule getAll_notifications)
  have c5: "equipment_store s \<noteq> None \<longrightarrow> snd (getAll s) = s"
    by (auto simp: getAll_stored)
  have c6: "equipment_store s = None \<longrightarrow>
      equipment_store (snd (getAll s)) = Some (initial_data_mem s)"
    by (simp add: getAll_def)
  from c1 c2 c3 c4 c5 c6 show ?thesis
    by (simp only: report resolve snd_conv) simp
qed

theorem absent_id_noop_witness:
  "''9'' \<notin> set (map eq_id (fst (getAll (snd (getAll fresh))))) \<and>
   equipment_store (snd (getAll fresh)) = Some INITIAL_DATA \<and>
   snd (addLog ''n1'' 1700000000000 ''9''
     \<lparr>log_id = ''1700000000000'', log_date = ''2023-11-14T22:13:20.000Z'',
      description = ''Chiado'', reportedBy = ''Ana'', reportedById = ''user-1'',
      resolvedAt = None\<rparr> (snd (getAll fresh))) = snd (getAll fresh) \<and>
   snd (resolveMaintenance 1700000000000 ''n2'' 1700000000500 ''9'' (snd (getAll fresh))) =
     snd (getAll fresh) \<and>
   ''9'' \<notin> set (map eq_id (fst (getAll fresh))) \<and>
   fst (addLog ''n1'' 1700000000000 ''9''
     \<lparr>log_id = ''1700000000000'', log_date = ''2023-11-14T22:13:20.000Z'',
      description = ''Chiado'', reportedBy = ''Ana'', reportedById = ''user-1'',
      resolvedAt = None\<rparr> fresh) = None \<and>
   fst (getAll (snd (resolveMaintenance 1700000000000 ''n2'' 1700000000500 ''9'' fresh))) =
     INITIAL_DATA \<and>
   notifications_store (snd (resolveMaintenance 1700000000000 ''n2'' 1700000000500 ''9'' fresh)) =
     None"
proof -
  define lg where "lg = \<lparr>log_id = ''1700000000000'', log_date = ''2023-11-14T22:13:20.000Z'',
    description = ''Chiado'', reportedBy = ''Ana'', reportedById = ''user-1'',
    resolvedAt = None\<rparr>"
  have all: "fst (getAll fresh) = INITIAL_DATA"
    by (simp add: fresh_def getAll_def)
  have held: "equipment_store (snd (getAll fresh)) = Some INITIAL_DATA"
    by (simp add: fresh_def getAll_def)
  have later: "fst (getAll (snd (getAll fresh))) = INITIAL_DATA"
    by (simp add: getAll_stored[OF held])
  have ids: "''9'' \<notin> set (map eq_id INITIAL_DATA)"
    by (simp add: INITIAL_DATA_def)
  have h1: "''9'' \<notin> set (map eq_id (fst (getAll (snd (getAll fresh)))))"
    unfolding later by (rule ids)
  have h0: "''9'' \<notin> set (map eq_id (fst (getAll fresh)))"
    unfolding all by (rule ids)
  have none: "notifications_store fresh = None"
    by (simp add: fresh_def)
  have stored: "snd (addLog ''n1'' 1700000000000 ''9'' lg (snd (getAll fresh))) = snd (getAll fresh) \<and>
      snd (resolveMaintenance 1700000000000 ''n2'' 1700000000500 ''9'' (snd (getAll fresh))) =
        snd (getAll fresh)"
    using absent_id_noop[OF h1, of "''n1''" 1700000000000 lg 1700000000000 "''n2''" 1700000000500]
      held
    by blast
  have empty: "fst (addLog ''n1'' 1700000000000 ''9'' lg fresh) = None \<and>
      fst (getAll (snd (resolveMaintenance 1700000000000 ''n2'' 1700000000500 ''9'' fresh))) =
        INITIAL_DATA \<and>
      notifications_store (snd (resolveMaintenance 1700000000000 ''n2'' 1700000000500 ''9'' fresh)) =
        None"
    using absent_id_noop[OF h0, of "''n1''" 1700000000000 lg 1700000000000 "''n2''" 1700000000500,
        unfolded all none]
    by (metis fst_conv)
  from h1 held stored h0 empty show ?thesis
    unfolding lg_def by (intro conjI) simp_all
qed

text \<open>
  The claim as it was stated fails in a state that holds no equipment data: the id ''9'' is
  not in the collection, and after \<open>addLog\<close> with it the equipment key, empty before, holds
  the seed data.
\<close>

theorem absent_id_seeds_counterexample:
  "''9'' \<notin> set (map eq_id (fst (getAll fresh))) \<and>
   equipment_store fresh = None \<and>
   equipment_store (snd (addLog ''n1'' 1700000000000 ''9''
     \<lparr>log_id = ''1700000000000'', log_date = ''2023-11-14T22:13:20.000Z'',
      description = ''Chiado'', reportedBy = ''Ana'', reportedById = ''user-1'',
      resolvedAt = None\<rparr> fresh)) = Some INITIAL_DATA \<and>
   snd (addLog ''n1'' 1700000000000 ''9''
     \<lparr>log_id = ''1700000000000'', log_date = ''2023-11-14T22:13:20.000Z'',
      description = ''Chiado'', reportedBy = ''Ana'', reportedById = ''user-1'',
      resolvedAt = None\<rparr> fresh) \<noteq> fresh"
proof -
  have ids: "''9'' \<notin> set (map eq_id INITIAL_DATA)"
    by (simp add: INITIAL_DATA_def)
  have none: "find (\<lambda>i. eq_id i = ''9'') INITIAL_DATA = None"
    using ids by (rule find_absent)
  have run: "addLog nid now ''9'' log fresh =
      (None, fresh\<lparr>equipment_store := Some INITIAL_DATA\<rparr>)" for nid now log
    using none by (simp add: addLog_def getAll_def fresh_def Let_def)
  have differ: "fresh\<lparr>equipment_store := Some INITIAL_DATA\<rparr> \<noteq> fresh"
    by (simp add: fresh_def)
  from ids differ show ?thesis
    by (simp add: run) (simp add: fresh_def getAll_def)
qed

section \<open>Status and most recent log\<close>

lemma list_all_replaced:
  "list_all P items \<Longrightarrow> P e \<Longrightarrow> list_all P (map (\<lambda>i. if c i then e else i) items)"
  by (induction items) auto

lemma follows_resolved:
  "status_follows_log
     (if logs item = [] then item\<lparr>status := Available\<rparr>
      else item\<lparr>status := Available, logs := stamp_last resolved (logs item)\<rparr>)"
  by (simp add: status_follows_log_def stamp_last_last)

text \<open>One agreeing call keeps the agreement of status and most recent log.\<close>

lemma call_keeps:
  assumes inv: "list_all status_follows_log (fst (getAll s))" and ok: "agreeing_call c s"
  shows "list_all status_follows_log (fst (getAll (call c s)))"
proof (cases c)
  case (Upsert e)
  with inv ok show ?thesis
    by (simp add: collection_save list_all_replaced)
next
  case (Delete ident)
  with inv show ?thesis
    by (simp add: collection_delete list_all_iff)
next
  case (SetStatus ident newStatus)
  with inv ok show ?thesis
    by (simp add: collection_toggleStatus list_all_replaced split: option.splits)
next
  case (ReportIssue nid now ident log)
  with inv ok show ?thesis
    by (simp add: collection_addLog list_all_replaced split: option.splits)
next
  case (Resolve resolved nid now ident)
  show ?thesis
  proof (cases "find (\<lambda>i. eq_id i = ident) (fst (getAll s))")
    case None
    with inv Resolve show ?thesis
      by (simp add: collection_resolveMaintenance)
  next
    case (Some item)
    from inv follows_resolved[of item resolved] Resolve show ?thesis
      by (simp only: call.simps collection_resolveMaintenance Some option.case list_all_replaced)
  qed
qed

lemma calls_keep:
  "list_all status_follows_log (fst (getAll s)) \<Longrightarrow> agreeing_calls cs s \<Longrightarrow>
   list_all status_follows_log (fst (getAll (calls cs s)))"
proof (induction cs arbitrary: s)
  case Nil
  then show ?case by simp
next
  case (Cons c cs)
  from Cons.prems have "list_all status_follows_log (fst (getAll (call c s)))"
    by (simp add: call_keeps)
  with Cons.IH Cons.prems show ?case by simp
qed

lemma seed_follows: "list_all status_follows_log (fst (getAll fresh))"
  by (simp add: fresh_def getAll_def INITIAL_DATA_def status_follows_log_def)

text \<open>
  A call that does not agree writes an item whose status disagrees with its most recent log,
  so no call that keeps the agreement is left out.
\<close>

lemma list_all_replaced_found:
  "find (\<lambda>i. eq_id i = ident) items = Some item \<Longrightarrow>
   list_all P (map (\<lambda>i. if eq_id i = ident then e else i) items) \<Longrightarrow> P e"
  by (induction items) (auto split: if_splits)

lemma disagreeing_call_breaks:
  assumes "\<not> agreeing_call c s"
  shows "\<not> list_all status_follows_log (fst (getAll (call c s)))"
proof (cases c)
  case (Upsert e)
  show ?thesis
  proof (cases "find (\<lambda>i. eq_id i = eq_id e) (fst (getAll s))")
    case None
    with assms Upsert show ?thesis
      by (simp add: collection_save)
  next
    case (Some item)
    with assms Upsert list_all_replaced_found[OF Some, of status_follows_log e]
    show ?thesis
      by (auto simp: collection_save)
  qed
next
  case (Delete ident)
  with assms show ?thesis by simp
next
  case (SetStatus ident newStatus)
  with assms show ?thesis
    by (auto simp: collection_toggleStatus split: option.splits
        dest: list_all_replaced_found)
next
  case (ReportIssue nid now ident log)
  with assms show ?thesis
    by (auto simp: collection_addLog split: option.splits
        dest: list_all_replaced_found)
next
  case (Resolve resolved nid now ident)
  with assms show ?thesis by simp
qed

text \<open>
  Claim C3, as amended. In every state reached from the seed data by a sequence of facade
  calls (upsert, delete, setStatus, reportIssue, resolve) in which every call agrees with the
  logs, that is, no upsert, setStatus or reportIssue writes an item whose status disagrees
  with that item's most recent log, every item of the collection that has a log has status
  \<open>Maintenance\<close> when its most recent log has no resolution instant and status \<open>Available\<close>
  when it has one.
\<close>

theorem agreeing_calls_keep_status_follows_log:
  assumes "agreeing_calls cs fresh"
  shows "list_all status_follows_log (fst (getAll (calls cs fresh)))"
  using seed_follows assms by (rule calls_keep)

theorem agreeing_calls_keep_status_follows_log_witness:
  "agreeing_calls
     [SetStatus ''1'' In_use,
      SetStatus ''9'' Available,
      SetStatus ''3'' Maintenance,
      Resolve 1700000100000 ''n2'' 1700000100500 ''3'',
      SetStatus ''3'' Available,
      Delete ''2''] fresh \<and>
   list_all status_follows_log (fst (getAll (calls
     [SetStatus ''1'' In_use,
      SetStatus ''9'' Available,
      SetStatus ''3'' Maintenance,
      Resolve 1700000100000 ''n2'' 1700000100500 ''3'',
      SetStatus ''3'' Available,
      Delete ''2''] fresh))) \<and>
   map (\<lambda>i. (eq_id i, status i, map resolvedAt (logs i))) (fst (getAll (calls
     [SetStatus ''1'' In_use,
      SetStatus ''9'' Available,
      SetStatus ''3'' Maintenance,
      Resolve 1700000100000 ''n2'' 1700000100500 ''3'',
      SetStatus ''3'' Available,
      Delete ''2''] fresh))) =
     [(''1'', In_use, []), (''3'', Available, [Some 1700000100000]), (''4'', Available, [])]"
proof -
  have h: "agreeing_calls
     [SetStatus ''1'' In_use,
      SetStatus ''9'' Available,
      SetStatus ''3'' Maintenance,
      Resolve 1700000100000 ''n2'' 1700000100500 ''3'',
      SetStatus ''3'' Available,
      Delete ''2''] fresh"
    by (simp add: toggleStatus_def resolveMaintenance_def delete_def save_def getAll_def
        assign_found_def createNotification_def stored_notifications_def fresh_def
        INITIAL_DATA_def status_follows_log_def stamp_last_def Let_def)
  have v: "map (\<lambda>i. (eq_id i, status i, map resolvedAt (logs i))) (fst (getAll (calls
     [SetStatus ''1'' In_use,
      SetStatus ''9'' Available,
      SetStatus ''3'' Maintenance,
      Resolve 1700000100000 ''n2'' 1700000100500 ''3'',
      SetStatus ''3'' Available,
      Delete ''2''] fresh))) =
     [(''1'', In_use, []), (''3'', Available, [Some 1700000100000]), (''4'', Available, [])]"
    by (simp add: toggleStatus_def resolveMaintenance_def delete_def save_def getAll_def
        assign_found_def createNotification_def stored_notifications_def fresh_def
        INITIAL_DATA_def stamp_last_def Let_def)
  from h agreeing_calls_keep_status_follows_log[OF h] v show ?thesis
    by (intro conjI)
qed

text \<open>
  The claim as it was stated fails after a call of \<open>toggleStatus\<close>: the item ''3'' of the seed
  data, whose only log has no resolution instant, is set to \<open>Available\<close>.
\<close>

theorem toggleStatus_breaks_counterexample:
  "map (\<lambda>i. (eq_id i, status i, map resolvedAt (logs i)))
     (fst (getAll (calls [SetStatus ''3'' Available] fresh))) =
     [(''1'', Available, []), (''2'', In_use, []), (''3'', Available, [None]),
      (''4'', Available, [])] \<and>
   \<not> list_all status_follows_log (fst (getAll (calls [SetStatus ''3'' Available] fresh)))"
  by (simp add: toggleStatus_def save_def getAll_def assign_found_def fresh_def
      INITIAL_DATA_def status_follows_log_def Let_def)

section \<open>Resolution instants\<close>

lemma find_stored:
  "distinct (map eq_id items) \<Longrightarrow> x \<in> set items \<Longrightarrow>
   find (\<lambda>y. eq_id y = eq_id x) items = Some x"
  by (induction items) (auto simp: image_iff)

lemma find_other_replaced:
  "i \<noteq> ident \<Longrightarrow> eq_id e = ident \<Longrightarrow>
   find (\<lambda>x. eq_id x = i) (map (\<lambda>x. if eq_id x = ident then e else x) items) =
     find (\<lambda>x. eq_id x = i) items"
  by (induction items) auto

lemma find_other_filtered:
  "i \<noteq> ident \<Longrightarrow>
   find (\<lambda>x. eq_id x = i) (filter (\<lambda>x. eq_id x \<noteq> ident) items) =
     find (\<lambda>x. eq_id x = i) items"
  by (induction items) auto

lemma find_appended:
  "find P items = Some x \<Longrightarrow> find P (items @ [e]) = Some x"
  by (induction items) (auto split: if_splits)

text \<open>
  The item found under an id after a method has written \<open>f item\<close> in place of the item it
  found under \<open>ident\<close>, when \<open>f\<close> keeps the id.
\<close>

lemma find_after_write:
  assumes old: "find (\<lambda>x. eq_id x = i) items = Some old"
    and keeps: "\<And>item. eq_id (f item) = eq_id item"
  shows "find (\<lambda>x. eq_id x = i)
      (case find (\<lambda>x. eq_id x = ident) items of
         None \<Rightarrow> items
       | Some item \<Rightarrow> map (\<lambda>x. if eq_id x = ident then f item else x) items) =
    Some (if i = ident then f old else old)"
proof (cases "i = ident")
  case True
  have "eq_id (f old) = ident"
    using find_eq_id[OF old] True by (simp add: keeps)
  from find_replaced[OF old[unfolded True] this] old True show ?thesis
    by simp
next
  case False
  show ?thesis
  proof (cases "find (\<lambda>x. eq_id x = ident) items")
    case None
    with old False show ?thesis by simp
  next
    case (Some item)
    have "eq_id (f item) = ident"
      using find_eq_id[OF Some] by (simp add: keeps)
    from find_other_replaced[OF False this] old False Some show ?thesis
      by simp
  qed
qed

text \<open>
  Claim C10, as amended. In a collection with distinct ids, take any stored item \<open>old\<close> and
  look at the item stored under its id after one facade call.
  After \<open>toggleStatus\<close> it has the same logs. After \<open>addLog\<close> its logs begin with the same
  logs. After \<open>resolveMaintenance\<close> it has as many logs, each the same log as before, except
  that the last log of the item that was resolved has the instant of the call as its
  resolution instant, whether or not it carried one before. After \<open>delete\<close> of another id
  the item is stored as it was. After \<open>save\<close> the item stored is the one given to \<open>save\<close>
  when it has that id, with whatever logs it brings, and \<open>old\<close> as it was otherwise.
\<close>

theorem stored_logs_kept:
  assumes unique: "distinct (map eq_id (fst (getAll s)))"
    and stored: "old \<in> set (fst (getAll s))"
  shows
    "(\<exists>new. find (\<lambda>x. eq_id x = eq_id old)
               (fst (getAll (snd (toggleStatus identT newStatus s)))) = Some new \<and>
            logs new = logs old) \<and>
     (\<exists>new. find (\<lambda>x. eq_id x = eq_id old)
               (fst (getAll (snd (addLog nid now identA log s)))) = Some new \<and>
            take (length (logs old)) (logs new) = logs old) \<and>
     (\<exists>new. find (\<lambda>x. eq_id x = eq_id old)
               (fst (getAll (snd (resolveMaintenance resolved nid' now' identR s)))) = Some new \<and>
            length (logs new) = length (logs old) \<and>
            (\<forall>k < length (logs old).
               logs new ! k =
                 (if identR = eq_id old \<and> k + 1 = length (logs old)
                  then (logs old ! k)\<lparr>resolvedAt := Some resolved\<rparr>
                  else logs old ! k))) \<and>
     (identD \<noteq> eq_id old \<longrightarrow>
        find (\<lambda>x. eq_id x = eq_id old) (fst (getAll (delete identD s))) = Some old) \<and>
     find (\<lambda>x. eq_id x = eq_id old) (fst (getAll (snd (save e s)))) =
       Some (if eq_id e = eq_id old then e else old)"
proof -
  have old: "find (\<lambda>x. eq_id x = eq_id old) (fst (getAll s)) = Some old"
    using unique stored by (rule find_stored)
  have toggled: "find (\<lambda>x. eq_id x = eq_id old)
      (fst (getAll (snd (toggleStatus identT newStatus s)))) =
      Some (if eq_id old = identT then old\<lparr>status := newStatus\<rparr> else old)"
    unfolding collection_toggleStatus
    by (rule find_after_write[OF old, where f = "\<lambda>item. item\<lparr>status := newStatus\<rparr>"]) simp
  have reported: "find (\<lambda>x. eq_id x = eq_id old)
      (fst (getAll (snd (addLog nid now identA log s)))) =
      Some (if eq_id old = identA
            then old\<lparr>logs := logs old @ [log], status := Maintenance\<rparr> else old)"
    unfolding collection_addLog
    by (rule find_after_write[OF old,
          where f = "\<lambda>item. item\<lparr>logs := logs item @ [log], status := Maintenance\<rparr>"]) simp
  have resolved: "find (\<lambda>x. eq_id x = eq_id old)
      (fst (getAll (snd (resolveMaintenance resolved nid' now' identR s)))) =
      Some (if eq_id old = identR
            then (if logs old = [] then old\<lparr>status := Available\<rparr>
                  else old\<lparr>status := Available, logs := stamp_last resolved (logs old)\<rparr>)
            else old)"
    unfolding collection_resolveMaintenance
    by (rule find_after_write[OF old,
          where f = "\<lambda>item. if logs item = [] then item\<lparr>status := Available\<rparr>
            else item\<lparr>status := Available, logs := stamp_last resolved (logs item)\<rparr>"]) simp
  have stamped: "stamp_last resolved ls ! k =
      (if k + 1 = length ls then (ls ! k)\<lparr>resolvedAt := Some resolved\<rparr> else ls ! k)"
    if "k < length ls" for ls k
    using that by (cases ls rule: rev_cases) (auto simp: stamp_last_def nth_append)
  have c1: "\<exists>new. find (\<lambda>x. eq_id x = eq_id old)
      (fst (getAll (snd (toggleStatus identT newStatus s)))) = Some new \<and> logs new = logs old"
    unfolding toggled by simp
  have c2: "\<exists>new. find (\<lambda>x. eq_id x = eq_id old)
      (fst (getAll (snd (addLog nid now identA log s)))) = Some new \<and>
      take (length (logs old)) (logs new) = logs old"
    unfolding reported by simp
  have c3: "\<exists>new. find (\<lambda>x. eq_id x = eq_id old)
      (fst (getAll (snd (resolveMaintenance resolved nid' now' identR s)))) = Some new \<and>
      length (logs new) = length (logs old) \<and>
      (\<forall>k < length (logs old).
         logs new ! k =
           (if identR = eq_id old \<and> k + 1 = length (logs old)
            then (logs old ! k)\<lparr>resolvedAt := Some resolved\<rparr>
            else logs old ! k))"
    unfolding resolved by (auto simp: stamped stamp_last_length)
  have c4: "identD \<noteq> eq_id old \<longrightarrow>
      find (\<lambda>x. eq_id x = eq_id old) (fst (getAll (delete identD s))) = Some old"
    using old by (auto simp: collection_delete find_other_filtered)
  have c5: "find (\<lambda>x. eq_id x = eq_id old) (fst (getAll (snd (save e s)))) =
      Some (if eq_id e = eq_id old then e else old)"
  proof (cases "eq_id e = eq_id old")
    case True
    from find_replaced[OF old True] old True show ?thesis
      by (simp add: collection_save)
  next
    case False
    then have "eq_id old \<noteq> eq_id e" by simp
    from find_other_replaced[OF this refl] find_appended[OF old] old False show ?thesis
      by (simp add: collection_save)
  qed
  from c1 c2 c3 c4 c5 show ?thesis by (intro conjI)
qed

theorem stored_logs_kept_witness:
  "distinct (map eq_id
     (fst (getAll (snd (resolveMaintenance 1700000000000 ''n1'' 1700000000500 ''3'' fresh))))) \<and>
   fst (getAll (snd (resolveMaintenance 1700000000000 ''n1'' 1700000000500 ''3'' fresh))) ! 2
     \<in> set (fst (getAll (snd (resolveMaintenance 1700000000000 ''n1'' 1700000000500 ''3'' fresh)))) \<and>
   map resolvedAt (logs
     (fst (getAll (snd (resolveMaintenance 1700000000000 ''n1'' 1700000000500 ''3'' fresh))) ! 2)) =
     [Some 1700000000000] \<and>
   (\<exists>new. find (\<lambda>x. eq_id x = ''3'')
       (fst (getAll (snd (toggleStatus ''3'' Maintenance
          (snd (resolveMaintenance 1700000000000 ''n1'' 1700000000500 ''3'' fresh)))))) = Some new \<and>
      map resolvedAt (logs new) = [Some 1700000000000]) \<and>
   (\<exists>new. find (\<lambda>x. eq_id x = ''3'')
       (fst (getAll (snd (addLog ''n2'' 1700000050000 ''3''
          \<lparr>log_id = ''1700000050000'', log_date = ''2023-11-15T12:06:40.000Z'',
           description = ''Chiado'', reportedBy = ''Ana'', reportedById = ''user-1'',
           resolvedAt = None\<rparr>
          (snd (resolveMaintenance 1700000000000 ''n1'' 1700000000500 ''3'' fresh)))))) = Some new \<and>
      map resolvedAt (take 1 (logs new)) = [Some 1700000000000]) \<and>
   (\<exists>new. find (\<lambda>x. eq_id x = ''3'')
       (fst (getAll (snd (resolveMaintenance 1700000100000 ''n3'' 1700000100500 ''3''
          (snd (resolveMaintenance 1700000000000 ''n1'' 1700000000500 ''3'' fresh)))))) = Some new \<and>
      resolvedAt (logs new ! 0) = Some 1700000100000)"
proof -
  define s1 where "s1 = snd (resolveMaintenance 1700000000000 ''n1'' 1700000000500 ''3'' fresh)"
  define old where "old = fst (getAll s1) ! 2"
  define lg where "lg = \<lparr>log_id = ''1700000050000'', log_date = ''2023-11-15T12:06:40.000Z'',
    description = ''Chiado'', reportedBy = ''Ana'', reportedById = ''user-1'',
    resolvedAt = None\<rparr>"
  have ids: "map eq_id (fst (getAll s1)) = [''1'', ''2'', ''3'', ''4'']"
    by (simp add: s1_def resolveMaintenance_def save_def getAll_def assign_found_def
        createNotification_def stored_notifications_def fresh_def INITIAL_DATA_def
        stamp_last_def Let_def)
  have unique: "distinct (map eq_id (fst (getAll s1)))"
    by (simp add: ids)
  have "length (map eq_id (fst (getAll s1))) = 4"
    unfolding ids by simp
  then have "length (fst (getAll s1)) = 4"
    by simp
  then have stored: "old \<in> set (fst (getAll s1))"
    by (simp add: old_def)
  have ident: "eq_id old = ''3''"
    by (simp add: old_def s1_def resolveMaintenance_def save_def getAll_def assign_found_def
        createNotification_def stored_notifications_def fresh_def INITIAL_DATA_def
        stamp_last_def Let_def)
  have before: "map resolvedAt (logs old) = [Some 1700000000000]"
    by (simp add: old_def s1_def resolveMaintenance_def save_def getAll_def assign_found_def
        createNotification_def stored_notifications_def fresh_def INITIAL_DATA_def
        stamp_last_def Let_def)
  have "length (map resolvedAt (logs old)) = 1"
    unfolding before by simp
  then have one: "length (logs old) = 1"
    by simp
  note kept = stored_logs_kept[OF unique stored, unfolded ident,
      of "''3''" Maintenance "''n2''" 1700000050000 "''3''" lg
         1700000100000 "''n3''" 1700000100500 "''3''"]
  from kept obtain new1 where
    t: "find (\<lambda>x. eq_id x = ''3'') (fst (getAll (snd (toggleStatus ''3'' Maintenance s1)))) =
        Some new1" "logs new1 = logs old"
    by blast
  from kept obtain new2 where
    a: "find (\<lambda>x. eq_id x = ''3'')
          (fst (getAll (snd (addLog ''n2'' 1700000050000 ''3'' lg s1)))) = Some new2"
       "take (length (logs old)) (logs new2) = logs old"
    by blast
  from kept obtain new3 where
    r: "find (\<lambda>x. eq_id x = ''3'')
          (fst (getAll (snd (resolveMaintenance 1700000100000 ''n3'' 1700000100500 ''3'' s1)))) =
        Some new3"
       "\<forall>k < length (logs old). logs new3 ! k =
          (if ''3'' = ''3'' \<and> k + 1 = length (logs old)
           then (logs old ! k)\<lparr>resolvedAt := Some 1700000100000\<rparr> else logs old ! k)"
    by blast
  from r(2) one have "resolvedAt (logs new3 ! 0) = Some 1700000100000"
    by simp
  with r(1) have c3: "\<exists>new. find (\<lambda>x. eq_id x = ''3'')
      (fst (getAll (snd (resolveMaintenance 1700000100000 ''n3'' 1700000100500 ''3'' s1)))) =
      Some new \<and> resolvedAt (logs new ! 0) = Some 1700000100000"
    by blast
  from t before have c1: "\<exists>new. find (\<lambda>x. eq_id x = ''3'')
      (fst (getAll (snd (toggleStatus ''3'' Maintenance s1)))) = Some new \<and>
      map resolvedAt (logs new) = [Some 1700000000000]"
    by auto
  from a before one have c2: "\<exists>new. find (\<lambda>x. eq_id x = ''3'')
      (fst (getAll (snd (addLog ''n2'' 1700000050000 ''3'' lg s1)))) = Some new \<and>
      map resolvedAt (take 1 (logs new)) = [Some 1700000000000]"
    by auto
  from unique stored before c1 c2 c3 show ?thesis
    unfolding old_def s1_def lg_def by (intro conjI)
qed

text \<open>
  The claim as it was stated fails when an item is resolved twice: the only log of the item
  ''3'' of the seed data carries the instant of the first resolution after it, and the
  instant of the second after that.
\<close>

theorem resolveMaintenance_twice_counterexample:
  "map (\<lambda>i. map resolvedAt (logs i))
     (fst (getAll (snd (resolveMaintenance 1700000000000 ''n1'' 1700000000500 ''3'' fresh)))) =
     [[], [], [Some 1700000000000], []] \<and>
   map (\<lambda>i. map resolvedAt (logs i))
     (fst (getAll (snd (resolveMaintenance 1700000100000 ''n2'' 1700000100500 ''3''
        (snd (resolveMaintenance 1700000000000 ''n1'' 1700000000500 ''3'' fresh)))))) =
     [[], [], [Some 1700000100000], []]"
  by (simp add: resolveMaintenance_def save_def getAll_def assign_found_def
      createNotification_def stored_notifications_def fresh_def INITIAL_DATA_def
      stamp_last_def Let_def)

section \<open>Notifications\<close>

lemma set_getNotifications:
  "set (getNotifications userId role s) =
     {n \<in> set (stored_notifications s). relevant userId role n}"
  by (simp add: getNotifications_def)

text \<open>
  Claim C4. \<open>getNotifications\<close> returns the notifications held under the notification key
  (none when the key holds nothing) whose recipient role is \<open>role\<close> or whose recipient user
  id is \<open>userId\<close>, each as often as it is stored and no other, and the list it returns is in
  descending order of creation instant.
\<close>

theorem getNotifications_filters_sorts:
  "mset (getNotifications userId role s) =
     mset (filter (\<lambda>n. recipientRole n = Some role \<or> recipientUserId n = Some userId)
                  (case notifications_store s of None \<Rightarrow> [] | Some stored \<Rightarrow> stored)) \<and>
   set (getNotifications userId role s) =
     {n \<in> set (case notifications_store s of None \<Rightarrow> [] | Some stored \<Rightarrow> stored).
        recipientRole n = Some role \<or> recipientUserId n = Some userId} \<and>
   sorted_wrt (\<lambda>a b. n_date b \<le> n_date a) (getNotifications userId role s)"
proof -
  have same: "relevant userId role =
      (\<lambda>n. recipientRole n = Some role \<or> recipientUserId n = Some userId)"
    by (rule ext) (simp add: relevant_def)
  have elems: "mset (getNotifications userId role s) =
      mset (filter (relevant userId role) (stored_notifications s))"
    by (simp add: getNotifications_def)
  have "sorted (map (\<lambda>n. - n_date n) (getNotifications userId role s))"
    by (simp add: getNotifications_def)
  then have order: "sorted_wrt (\<lambda>a b. n_date b \<le> n_date a) (getNotifications userId role s)"
    by (simp add: sorted_map)
  from elems order set_getNotifications[of userId role s] show ?thesis
    by (simp add: same stored_notifications_def)
qed

text \<open>
  Three notifications stored oldest first, two for the role \<open>Admin\<close> and one for the user
  ''user-1'': the administrator ''admin-1'' gets the two for the role, the later one first.
\<close>

theorem getNotifications_filters_sorts_witness:
  "set (getNotifications ''admin-1'' Admin
     (fresh\<lparr>notifications_store := Some
        [\<lparr>n_id = ''n1'', n_date = 1700000000000, read = False, message = ''problema'',
          n_type = ''alert'', recipientRole = Some Admin, recipientUserId = None,
          relatedEquipmentId = Some ''1''\<rparr>,
         \<lparr>n_id = ''n2'', n_date = 1700000100500, read = False, message = ''reparado'',
          n_type = ''success'', recipientRole = None, recipientUserId = Some ''user-1'',
          relatedEquipmentId = Some ''3''\<rparr>,
         \<lparr>n_id = ''n3'', n_date = 1700000200000, read = False, message = ''problema'',
          n_type = ''alert'', recipientRole = Some Admin, recipientUserId = None,
          relatedEquipmentId = Some ''4''\<rparr>]\<rparr>)) =
     {\<lparr>n_id = ''n1'', n_date = 1700000000000, read = False, message = ''problema'',
       n_type = ''alert'', recipientRole = Some Admin, recipientUserId = None,
       relatedEquipmentId = Some ''1''\<rparr>,
      \<lparr>n_id = ''n3'', n_date = 1700000200000, read = False, message = ''problema'',
       n_type = ''alert'', recipientRole = Some Admin, recipientUserId = None,
       relatedEquipmentId = Some ''4''\<rparr>} \<and>
   map n_id (getNotifications ''admin-1'' Admin
     (fresh\<lparr>notifications_store := Some
        [\<lparr>n_id = ''n1'', n_date = 1700000000000, read = False, message = ''problema'',
          n_type = ''alert'', recipientRole = Some Admin, recipientUserId = None,
          relatedEquipmentId = Some ''1''\<rparr>,
         \<lparr>n_id = ''n2'', n_date = 1700000100500, read = False, message = ''reparado'',
          n_type = ''success'', recipientRole = None, recipientUserId = Some ''user-1'',
          relatedEquipmentId = Some ''3''\<rparr>,
         \<lparr>n_id = ''n3'', n_date = 1700000200000, read = False, message = ''problema'',
          n_type = ''alert'', recipientRole = Some Admin, recipientUserId = None,
          relatedEquipmentId = Some ''4''\<rparr>]\<rparr>)) = [''n3'', ''n1''] \<and>
   getNotifications ''user-1'' User fresh = []"
proof -
  define n1 where "n1 = \<lparr>n_id = ''n1'', n_date = 1700000000000, read = False,
    message = ''problema'', n_type = ''alert'', recipientRole = Some Admin,
    recipientUserId = None, relatedEquipmentId = Some ''1''\<rparr>"
  define n2 where "n2 = \<lparr>n_id = ''n2'', n_date = 1700000100500, read = False,
    message = ''reparado'', n_type = ''success'', recipientRole = None,
    recipientUserId = Some ''user-1'', relatedEquipmentId = Some ''3''\<rparr>"
  define n3 where "n3 = \<lparr>n_id = ''n3'', n_date = 1700000200000, read = False,
    message = ''problema'', n_type = ''alert'', recipientRole = Some Admin,
    recipientUserId = None, relatedEquipmentId = Some ''4''\<rparr>"
  define s0 where "s0 = fresh\<lparr>notifications_store := Some [n1, n2, n3]\<rparr>"
  have key: "notifications_store s0 = Some [n1, n2, n3]"
    by (simp add: s0_def)
  have picked: "filter (\<lambda>n. recipientRole n = Some Admin \<or> recipientUserId n = Some ''admin-1'')
      [n1, n2, n3] = [n1, n3]"
    by (simp add: n1_def n2_def n3_def)
  have "mset (getNotifications ''admin-1'' Admin s0) = mset [n1, n3]"
    using getNotifications_filters_sorts[of "''admin-1''" Admin s0,
        unfolded key option.case picked]
    by (rule conjunct1)
  then have "set (getNotifications ''admin-1'' Admin s0) = set [n1, n3]"
    by (rule mset_eq_setD)
  then have listed: "set (getNotifications ''admin-1'' Admin s0) = {n1, n3}"
    by simp
  have order: "map n_id (getNotifications ''admin-1'' Admin s0) = [''n3'', ''n1'']"
    by (simp add: getNotifications_def stored_notifications_def key relevant_def
        n1_def n2_def n3_def)
  have "mset (getNotifications ''user-1'' User fresh) = {#}"
    using getNotifications_filters_sorts[of "''user-1''" User fresh] by (simp add: fresh_def)
  then have unstored: "getNotifications ''user-1'' User fresh = []"
    by simp
  from listed order unstored show ?thesis
    unfolding s0_def n1_def n2_def n3_def by (intro conjI)
qed

lemma stored_markAllRead:
  "stored_notifications (markAllRead userId role s) =
     map (\<lambda>n. if relevant userId role n then n\<lparr>read := True\<rparr> else n) (stored_notifications s)"
  by (simp add: markAllRead_def stored_notifications_def split: option.splits)

text \<open>
  Claim C7. \<open>markAllRead\<close> keeps the number and the positions of the stored notifications;
  a notification that \<open>getNotifications\<close> returns for the same user id and role (and these are
  the stored ones whose recipient role is \<open>role\<close> or whose recipient user id is \<open>userId\<close>) is
  stored with \<open>read\<close> set and nothing else changed, and every other notification is stored as
  it was. The equipment key is not touched.
\<close>

theorem markAllRead_marks_listed:
  "length (stored_notifications (markAllRead userId role s)) = length (stored_notifications s) \<and>
   (\<forall>j < length (stored_notifications s).
      stored_notifications (markAllRead userId role s) ! j =
        (if stored_notifications s ! j \<in> set (getNotifications userId role s)
         then (stored_notifications s ! j)\<lparr>read := True\<rparr>
         else stored_notifications s ! j)) \<and>
   (\<forall>n \<in> set (stored_notifications s).
      n \<in> set (getNotifications userId role s) \<longleftrightarrow>
        recipientRole n = Some role \<or> recipientUserId n = Some userId) \<and>
   equipment_store (markAllRead userId role s) = equipment_store s"
proof -
  have len: "length (stored_notifications (markAllRead userId role s)) =
      length (stored_notifications s)"
    by (simp add: stored_markAllRead)
  have each: "stored_notifications (markAllRead userId role s) ! j =
      (if stored_notifications s ! j \<in> set (getNotifications userId role s)
       then (stored_notifications s ! j)\<lparr>read := True\<rparr>
       else stored_notifications s ! j)"
    if "j < length (stored_notifications s)" for j
    using that by (simp add: stored_markAllRead set_getNotifications)
  have listed: "n \<in> set (getNotifications userId role s) \<longleftrightarrow>
      recipientRole n = Some role \<or> recipientUserId n = Some userId"
    if "n \<in> set (stored_notifications s)" for n
    using that by (simp add: set_getNotifications relevant_def)
  have frame: "equipment_store (markAllRead userId role s) = equipment_store s"
    by (simp add: markAllRead_def split: option.splits)
  from len each listed frame show ?thesis by blast
qed

theorem markAllRead_marks_listed_witness:
  "stored_notifications (markAllRead ''admin-1'' Admin
     (fresh\<lparr>notifications_store := Some
        [\<lparr>n_id = ''n2'', n_date = 1700000100500, read = False, message = ''reparado'',
          n_type = ''success'', recipientRole = None, recipientUserId = Some ''user-1'',
          relatedEquipmentId = Some ''3''\<rparr>,
         \<lparr>n_id = ''n1'', n_date = 1700000000000, read = False, message = ''problema'',
          n_type = ''alert'', recipientRole = Some Admin, recipientUserId = None,
          relatedEquipmentId = Some ''1''\<rparr>]\<rparr>)) ! 0 =
     \<lparr>n_id = ''n2'', n_date = 1700000100500, read = False, message = ''reparado'',
      n_type = ''success'', recipientRole = None, recipientUserId = Some ''user-1'',
      relatedEquipmentId = Some ''3''\<rparr> \<and>
   stored_notifications (markAllRead ''admin-1'' Admin
     (fresh\<lparr>notifications_store := Some
        [\<lparr>n_id = ''n2'', n_date = 1700000100500, read = False, message = ''reparado'',
          n_type = ''success'', recipientRole = None, recipientUserId = Some ''user-1'',
          relatedEquipmentId = Some ''3''\<rparr>,
         \<lparr>n_id = ''n1'', n_date = 1700000000000, read = False, message = ''problema'',
          n_type = ''alert'', recipientRole = Some Admin, recipientUserId = None,
          relatedEquipmentId = Some ''1''\<rparr>]\<rparr>)) ! 1 =
     \<lparr>n_id = ''n1'', n_date = 1700000000000, read = True, message = ''problema'',
      n_type = ''alert'', recipientRole = Some Admin, recipientUserId = None,
      relatedEquipmentId = Some ''1''\<rparr>"
proof -
  define n2 where "n2 = \<lparr>n_id = ''n2'', n_date = 1700000100500, read = False,
    message = ''reparado'', n_type = ''success'', recipientRole = None,
    recipientUserId = Some ''user-1'', relatedEquipmentId = Some ''3''\<rparr>"
  define n1 where "n1 = \<lparr>n_id = ''n1'', n_date = 1700000000000, read = False,
    message = ''problema'', n_type = ''alert'', recipientRole = Some Admin,
    recipientUserId = None, relatedEquipmentId = Some ''1''\<rparr>"
  define s0 where "s0 = fresh\<lparr>notifications_store := Some [n2, n1]\<rparr>"
  have stored: "stored_notifications s0 = [n2, n1]"
    by (simp add: s0_def stored_notifications_def)
  have listed: "getNotifications ''admin-1'' Admin s0 = [n1]"
    by (simp add: getNotifications_def stored relevant_def n1_def n2_def)
  have differ: "n2 \<noteq> n1"
    by (simp add: n1_def n2_def)
  have each: "\<forall>j<2. stored_notifications (markAllRead ''admin-1'' Admin s0) ! j =
      (if [n2, n1] ! j = n1 then ([n2, n1] ! j)\<lparr>read := True\<rparr> else [n2, n1] ! j)"
    using markAllRead_marks_listed[of "''admin-1''" Admin s0]
    by (simp add: stored listed)
  from each have "stored_notifications (markAllRead ''admin-1'' Admin s0) ! 0 =
      (if [n2, n1] ! 0 = n1 then ([n2, n1] ! 0)\<lparr>read := True\<rparr> else [n2, n1] ! 0)"
    by simp
  then have first: "stored_notifications (markAllRead ''admin-1'' Admin s0) ! 0 = n2"
    using differ by simp
  from each have "stored_notifications (markAllRead ''admin-1'' Admin s0) ! 1 =
      (if [n2, n1] ! 1 = n1 then ([n2, n1] ! 1)\<lparr>read := True\<rparr> else [n2, n1] ! 1)"
    by simp
  then have second: "stored_notifications (markAllRead ''admin-1'' Admin s0) ! 1 =
      n1\<lparr>read := True\<rparr>"
    by simp
  from first second show ?thesis
    unfolding s0_def n1_def n2_def by simp
qed

end
